theory Spec2Isabelle
  imports Main "HOL-Library.Word"
begin

unbundle bit_operations_syntax

section \<open>Windows options of Wails v2: \<^verbatim>\<open>v2/pkg/options/windows/windows.go\<close>\<close>

text \<open>
  The package declares two enumerations, a table of DLL search flags, three structs, a
  colour packing function and a constructor for the default message catalog. The
  embedding keeps the declarations in the order of the source.
\<close>

subsection \<open>Machine types\<close>

text \<open>
  Go's fixed-width integers are words. \<^typ>\<open>32 word\<close> stands for both \<^verbatim>\<open>int32\<close> and
  \<^verbatim>\<open>uint32\<close>: the bits are the same, \<^const>\<open>sint\<close> reads the signed value and
  \<^const>\<open>uint\<close> the unsigned one. A conversion \<^verbatim>\<open>int32(x)\<close> of a \<^verbatim>\<open>uint8\<close> extends with
  zeros (\<^const>\<open>ucast\<close>), \<^verbatim>\<open><<\<close> drops the bits shifted out (\<^const>\<open>push_bit\<close>), and
  \<^verbatim>\<open>>>\<close> on a signed operand copies the sign bit (\<^const>\<open>signed_drop_bit\<close>).
\<close>

type_synonym uint8 = "8 word"
type_synonym uint16 = "16 word"
type_synonym int32 = "32 word"
type_synonym uint32 = "32 word"

subsection \<open>Theme\<close>

text \<open>
  \<^verbatim>\<open>type Theme int\<close>. Go's \<^verbatim>\<open>int\<close> is 32 or 64 bits wide by platform; the source does no
  arithmetic on a theme, so the width plays no role and the type is \<^typ>\<open>int\<close>. It is
  not a three-constructor datatype: a Go \<^verbatim>\<open>Theme\<close> can hold any integer.
\<close>

type_synonym Theme = int

definition SystemDefault :: Theme where "SystemDefault = 0"
definition Dark :: Theme where "Dark = 1"
definition Light :: Theme where "Light = 2"

text \<open>The \<^verbatim>\<open>const\<close> block of the themes, in source order.\<close>

definition Theme_constants :: "Theme list" where
  "Theme_constants = [SystemDefault, Dark, Light]"

subsection \<open>BackdropType\<close>

text \<open>
  \<^verbatim>\<open>type BackdropType int32\<close>. The constant \<^verbatim>\<open>None\<close> of the source is written
  \<open>None_backdrop\<close> here, since \<^const>\<open>None\<close> is the constructor of \<^typ>\<open>'a option\<close>.
\<close>

type_synonym BackdropType = int32

definition Auto :: BackdropType where "Auto = 0"
definition None_backdrop :: BackdropType where "None_backdrop = 1"
definition Mica :: BackdropType where "Mica = 2"
definition Acrylic :: BackdropType where "Acrylic = 3"
definition Tabbed :: BackdropType where "Tabbed = 4"

definition BackdropType_constants :: "BackdropType list" where
  "BackdropType_constants = [Auto, None_backdrop, Mica, Acrylic, Tabbed]"

subsection \<open>DLL search flags\<close>

text \<open>
  Each flag is assigned from a constant of the package \<^verbatim>\<open>golang.org/x/sys/windows\<close>,
  which is a dependency and not part of this repository. The value of each is the one
  the source records in the comment on the same line (\<^verbatim>\<open>// 0x1\<close>, \<^verbatim>\<open>// 0x2\<close>,
  \<^verbatim>\<open>// 0x8\<close>, ...); these are the values of the \<^verbatim>\<open>LoadLibraryEx\<close> flags of the
  Windows API.
\<close>

definition DLLSearchDefault :: uint32 where "DLLSearchDefault = 0"
definition DLLSearchDontResolveDllReferences :: uint32 where
  "DLLSearchDontResolveDllReferences = 0x1"
definition DLLSearchAsDataFile :: uint32 where "DLLSearchAsDataFile = 0x2"
definition DLLSearchWithAlteredPath :: uint32 where "DLLSearchWithAlteredPath = 0x8"
definition DLLSearchIgnoreCodeAuthzLevel :: uint32 where
  "DLLSearchIgnoreCodeAuthzLevel = 0x10"
definition DLLSearchAsImageResource :: uint32 where "DLLSearchAsImageResource = 0x20"
definition DLLSearchAsDataFileExclusive :: uint32 where
  "DLLSearchAsDataFileExclusive = 0x40"
definition DLLSearchRequireSignedTarget :: uint32 where
  "DLLSearchRequireSignedTarget = 0x80"
definition DLLSearchDllLoadDir :: uint32 where "DLLSearchDllLoadDir = 0x100"
definition DLLSearchApplicationDir :: uint32 where "DLLSearchApplicationDir = 0x200"
definition DLLSearchUserDirs :: uint32 where "DLLSearchUserDirs = 0x400"
definition DLLSearchSystem32 :: uint32 where "DLLSearchSystem32 = 0x800"
definition DLLSearchDefaultDirs :: uint32 where "DLLSearchDefaultDirs = 0x1000"
definition DLLSearchSafeCurrentDirs :: uint32 where "DLLSearchSafeCurrentDirs = 0x2000"
definition DLLSearchSystem32NoForwarder :: uint32 where
  "DLLSearchSystem32NoForwarder = 0x4000"
definition DLLSearchOsIntegrityContinuity :: uint32 where
  "DLLSearchOsIntegrityContinuity = 0x8000"

text \<open>
  The fifteen flags after \<^const>\<open>DLLSearchDefault\<close>, in source order, and the whole
  \<^verbatim>\<open>const\<close> block.
\<close>

definition DLLSearch_flags :: "uint32 list" where
  "DLLSearch_flags =
     [DLLSearchDontResolveDllReferences, DLLSearchAsDataFile, DLLSearchWithAlteredPath,
      DLLSearchIgnoreCodeAuthzLevel, DLLSearchAsImageResource,
      DLLSearchAsDataFileExclusive, DLLSearchRequireSignedTarget, DLLSearchDllLoadDir,
      DLLSearchApplicationDir, DLLSearchUserDirs, DLLSearchSystem32,
      DLLSearchDefaultDirs, DLLSearchSafeCurrentDirs, DLLSearchSystem32NoForwarder,
      DLLSearchOsIntegrityContinuity]"

definition DLLSearch_constants :: "uint32 list" where
  "DLLSearch_constants = DLLSearchDefault # DLLSearch_flags"

text \<open>
  The bit position of each flag, in the same order: \<open>0x1\<close> is bit 0, \<open>0x2\<close> bit 1,
  \<open>0x8\<close> bit 3, and so on up to \<open>0x8000\<close>, bit 15. No flag of the source has the value
  \<open>0x4\<close>.
\<close>

definition DLLSearch_bits :: "nat list" where
  "DLLSearch_bits = [0, 1, 3, 4, 5, 6, 7, 8, 9, 10, 11, 12, 13, 14, 15]"

text \<open>
  The field \<^verbatim>\<open>DLLSearchPaths\<close> is documented as ``combine multiple flags with bitwise
  OR'', as in \<^verbatim>\<open>DLLSearchApplicationDir | DLLSearchSystem32\<close>. Combining a list of flags:
\<close>

fun combine :: "uint32 list \<Rightarrow> uint32" where
  "combine [] = 0"
| "combine (f # fs) = f OR combine fs"

subsection \<open>RGB\<close>

text \<open>
  \<^verbatim>\<open>
  func RGB(r, g, b uint8) int32 {
      col := int32(b)
      col = col<<8 | int32(g)
      col = col<<8 | int32(r)
      return col
  }
  \<close>
  In Go \<^verbatim>\<open><<\<close> binds tighter than \<^verbatim>\<open>|\<close>.
\<close>

definition RGB :: "uint8 \<Rightarrow> uint8 \<Rightarrow> uint8 \<Rightarrow> int32" where
  "RGB r g b =
     (let col = (ucast b :: int32);
          col = push_bit 8 col OR ucast g;
          col = push_bit 8 col OR ucast r
      in col)"

subsection \<open>The structs\<close>

record Messages =
  InstallationRequired :: string
  UpdateRequired :: string
  MissingRequirements :: string
  Webview2NotInstalled :: string
  Error :: string
  FailedToInstall :: string
  DownloadPage :: string
  PressOKToInstall :: string
  ContactAdmin :: string
  InvalidFixedWebview2 :: string
  WebView2ProcessCrash :: string

record ThemeSettings =
  DarkModeTitleBar :: int32
  DarkModeTitleBarInactive :: int32
  DarkModeTitleText :: int32
  DarkModeTitleTextInactive :: int32
  DarkModeBorder :: int32
  DarkModeBorderInactive :: int32
  LightModeTitleBar :: int32
  LightModeTitleBarInactive :: int32
  LightModeTitleText :: int32
  LightModeTitleTextInactive :: int32
  LightModeBorder :: int32
  LightModeBorderInactive :: int32

text \<open>
  A Go pointer is \<^verbatim>\<open>nil\<close> or the address of a cell: \<^term>\<open>None :: nat option\<close> or
  \<^term>\<open>Some a\<close>. In \<^verbatim>\<open>Options\<close> the type of \<^verbatim>\<open>ZoomFactor\<close> (\<^verbatim>\<open>float64\<close>) and the type of
  the two callbacks (\<^verbatim>\<open>func()\<close>, which may be \<^verbatim>\<open>nil\<close>) are parameters: the source never
  computes with either.
\<close>

type_synonym pointer = "nat option"

record ('f, 'cb) Options =
  WebviewIsTransparent :: bool
  WindowIsTranslucent :: bool
  DisableWindowIcon :: bool
  IsZoomControlEnabled :: bool
  ZoomFactor :: 'f
  DisablePinchZoom :: bool
  DisableFramelessWindowDecorations :: bool
  WebviewUserDataPath :: string
  WebviewBrowserPath :: string
  Theme :: Theme
  CustomTheme :: pointer
  BackdropType :: BackdropType
  Messages :: pointer
  ResizeDebounceMS :: uint16
  OnSuspend :: "'cb option"
  OnResume :: "'cb option"
  WebviewGpuIsDisabled :: bool
  WebviewDisableRendererCodeIntegrity :: bool
  EnableSwipeGestures :: bool
  WindowClassName :: string
  DLLSearchPaths :: uint32

subsection \<open>The store\<close>

text \<open>
  \<^verbatim>\<open>DefaultMessages\<close> returns \<^verbatim>\<open>&Messages{...}\<close>, the address of a newly allocated
  struct. The store holds the cells of the three struct types; the address of a cell is
  its index, and an allocation appends a cell, so the new address is the length of the
  old list.
\<close>

record ('f, 'cb) store =
  Options_cells :: "('f, 'cb) Options list"
  ThemeSettings_cells :: "ThemeSettings list"
  Messages_cells :: "Messages list"

definition load_Messages :: "('f, 'cb) store \<Rightarrow> pointer \<Rightarrow> Messages option" where
  "load_Messages s p =
     (case p of
        None \<Rightarrow> None
      | Some a \<Rightarrow> if a < length (Messages_cells s) then Some (Messages_cells s ! a) else None)"

definition load_ThemeSettings :: "('f, 'cb) store \<Rightarrow> pointer \<Rightarrow> ThemeSettings option" where
  "load_ThemeSettings s p =
     (case p of
        None \<Rightarrow> None
      | Some a \<Rightarrow>
          if a < length (ThemeSettings_cells s) then Some (ThemeSettings_cells s ! a)
          else None)"

definition load_Options :: "('f, 'cb) store \<Rightarrow> pointer \<Rightarrow> ('f, 'cb) Options option" where
  "load_Options s p =
     (case p of
        None \<Rightarrow> None
      | Some a \<Rightarrow> if a < length (Options_cells s) then Some (Options_cells s ! a) else None)"

subsection \<open>DefaultMessages\<close>

definition DefaultMessages :: "('f, 'cb) store \<Rightarrow> pointer \<times> ('f, 'cb) store" where
  "DefaultMessages s =
     (Some (length (Messages_cells s)),
      s\<lparr>Messages_cells := Messages_cells s @
        [\<lparr>InstallationRequired = ''The WebView2 runtime is required. Press Ok to download and install. Note: The installer will download silently so please wait.'',
          UpdateRequired = ''The WebView2 runtime needs updating. Press Ok to download and install. Note: The installer will download silently so please wait.'',
          MissingRequirements = ''Missing Requirements'',
          Webview2NotInstalled = ''WebView2 runtime not installed'',
          Error = ''Error'',
          FailedToInstall = ''The runtime failed to install correctly. Please try again.'',
          DownloadPage = ''This application requires the WebView2 runtime. Press OK to open the download page. Minimum version required: '',
          PressOKToInstall = ''Press Ok to install.'',
          ContactAdmin = ''The WebView2 runtime is required to run this application. Please contact your system administrator.'',
          InvalidFixedWebview2 = ''The WebView2 runtime is manually specified, but It is not valid. Check minimum required version and webview2 path.'',
          WebView2ProcessCrash = ''The WebView2 process crashed and the application needs to be restarted.''\<rparr>]\<rparr>)"

subsection \<open>The operations of the package\<close>

text \<open>
  The package has two functions. A call of either, run on a store, gives an outcome and
  a store. A Go function signals failure by a panic or by returning an \<^verbatim>\<open>error\<close>
  value; neither function has a statement that panics (the shift counts are constants,
  nothing is indexed, divided or dereferenced) nor an \<^verbatim>\<open>error\<close> result, so neither
  equation of \<open>run\<close> has a failing branch.
\<close>

datatype call = Call_RGB uint8 uint8 uint8 | Call_DefaultMessages

datatype result = Result_int32 int32 | Result_Messages_pointer pointer

datatype failure = Panic | Error_value

fun run :: "call \<Rightarrow> ('f, 'cb) store \<Rightarrow> (failure + result) \<times> ('f, 'cb) store" where
  "run (Call_RGB r g b) s = (Inr (Result_int32 (RGB r g b)), s)"
| "run Call_DefaultMessages s =
     (case DefaultMessages s of (p, s') \<Rightarrow> (Inr (Result_Messages_pointer p), s'))"

section \<open>Bits of the packed colour\<close>

lemma RGB_bit:
  "bit (RGB r g b) n \<longleftrightarrow>
     (n < 8 \<and> bit r n) \<or> (8 \<le> n \<and> n < 16 \<and> bit g (n - 8)) \<or>
     (16 \<le> n \<and> n < 24 \<and> bit b (n - 16))"
  by (auto simp add: RGB_def Let_def bit_simps dest: bit_imp_le_length)

lemma RGB_red: "ucast (RGB r g b) = r"
  by (rule bit_word_eqI) (auto simp add: RGB_bit bit_simps)

lemma RGB_green: "ucast (drop_bit 8 (RGB r g b)) = g"
  by (rule bit_word_eqI) (auto simp add: RGB_bit bit_simps)

lemma RGB_blue: "ucast (drop_bit 16 (RGB r g b)) = b"
  by (rule bit_word_eqI) (auto simp add: RGB_bit bit_simps)

lemma RGB_uint: "uint (RGB r g b) < 2 ^ 24"
proof -
  have "RGB r g b AND mask 24 = RGB r g b"
    by (rule bit_word_eqI) (auto simp add: RGB_bit bit_simps)
  then show ?thesis
    using and_mask_lt_2p [of "RGB r g b" 24] by simp
qed

lemma RGB_sint: "sint (RGB r g b) = uint (RGB r g b)"
proof -
  have "signed_take_bit 31 (uint (RGB r g b)) = uint (RGB r g b)"
  proof (rule signed_take_bit_int_eq_self)
    show "- (2 ^ 31) \<le> uint (RGB r g b)"
      by (rule order_trans [of _ 0]) simp_all
    from RGB_uint [of r g b] show "uint (RGB r g b) < 2 ^ 31" by simp
  qed
  then show ?thesis
    by (simp add: sint_uint)
qed

lemma byte_mask: "(0xFF :: int32) = mask 8"
  by (simp add: mask_eq_exp_minus_1)

section \<open>The packed colour\<close>

text \<open>
  C1. For all 8-bit \<open>r\<close>, \<open>g\<close>, \<open>b\<close>, \<open>RGB r g b\<close> is the 32-bit value
  \<open>(b << 16) | (g << 8) | r\<close>, laid out as \<open>0x00BBGGRR\<close>: bits 16 to 23 are \<open>b\<close>, bits 8 to
  15 are \<open>g\<close>, bits 0 to 7 are \<open>r\<close>, bits 24 to 31 are zero, and the value read as a signed
  \<^verbatim>\<open>int32\<close> is not negative. In particular \<open>RGB 255 0 0 = 0x000000FF\<close>,
  \<open>RGB 0 255 0 = 0x0000FF00\<close>, \<open>RGB 0 0 255 = 0x00FF0000\<close> and
  \<open>RGB 16 32 48 = 0x00302010\<close>.
\<close>

theorem RGB_packs_0x00BBGGRR:
  "RGB r g b = push_bit 16 (ucast b) OR push_bit 8 (ucast g) OR ucast r
   \<and> ucast (drop_bit 16 (RGB r g b)) = b
   \<and> ucast (drop_bit 8 (RGB r g b)) = g
   \<and> ucast (RGB r g b) = r
   \<and> drop_bit 24 (RGB r g b) = 0
   \<and> 0 \<le> sint (RGB r g b)
   \<and> RGB 255 0 0 = 0x000000FF
   \<and> RGB 0 255 0 = 0x0000FF00
   \<and> RGB 0 0 255 = 0x00FF0000
   \<and> RGB 16 32 48 = 0x00302010"
proof -
  have layout: "RGB r g b = push_bit 16 (ucast b) OR push_bit 8 (ucast g) OR ucast r"
    by (rule bit_word_eqI) (auto simp add: RGB_bit bit_simps dest: bit_imp_le_length)
  have high: "drop_bit 24 (RGB r g b) = 0"
    by (rule bit_word_eqI) (auto simp add: RGB_bit bit_simps)
  have sign: "0 \<le> sint (RGB r g b)"
    by (simp add: RGB_sint)
  have examples: "RGB 255 0 0 = 0x000000FF" "RGB 0 255 0 = 0x0000FF00"
    "RGB 0 0 255 = 0x00FF0000" "RGB 16 32 48 = 0x00302010"
    by (simp_all add: RGB_def)
  from layout RGB_blue [of r g b] RGB_green [of r g b] RGB_red [of r g b] high sign examples
  show ?thesis by blast
qed

text \<open>
  C7. The channels are recovered from the packed value: \<open>RGB r g b & 0xFF\<close> is \<open>r\<close>,
  \<open>(RGB r g b >> 8) & 0xFF\<close> is \<open>g\<close> and \<open>(RGB r g b >> 16) & 0xFF\<close> is \<open>b\<close>, where \<open>>>\<close> is
  Go's shift of a signed \<^verbatim>\<open>int32\<close>. So different triples give different packed values,
  and every packed value, read as a signed \<^verbatim>\<open>int32\<close>, is between \<open>0\<close> and \<open>0x00FFFFFF\<close>.
\<close>

theorem RGB_channels_recoverable:
  "RGB r g b AND 0xFF = ucast r
   \<and> signed_drop_bit 8 (RGB r g b) AND 0xFF = ucast g
   \<and> signed_drop_bit 16 (RGB r g b) AND 0xFF = ucast b
   \<and> ucast (RGB r g b AND 0xFF) = r
   \<and> ucast (signed_drop_bit 8 (RGB r g b) AND 0xFF) = g
   \<and> ucast (signed_drop_bit 16 (RGB r g b) AND 0xFF) = b
   \<and> ((r, g, b) \<noteq> (r', g', b') \<longrightarrow> RGB r g b \<noteq> RGB r' g' b')
   \<and> 0 \<le> sint (RGB r g b)
   \<and> sint (RGB r g b) \<le> 0x00FFFFFF"
proof -
  have red: "RGB r g b AND 0xFF = ucast r"
    unfolding byte_mask
    by (rule bit_word_eqI) (auto simp add: RGB_bit bit_simps dest: bit_imp_le_length)
  have green: "signed_drop_bit 8 (RGB r g b) AND 0xFF = ucast g"
    unfolding byte_mask
    by (rule bit_word_eqI) (auto simp add: RGB_bit bit_simps dest: bit_imp_le_length)
  have blue: "signed_drop_bit 16 (RGB r g b) AND 0xFF = ucast b"
    unfolding byte_mask
    by (rule bit_word_eqI) (auto simp add: RGB_bit bit_simps dest: bit_imp_le_length)
  have narrow: "ucast (ucast x :: int32) = x" for x :: uint8
    by (rule bit_word_eqI) (auto simp add: bit_simps)
  have inj: "RGB r g b \<noteq> RGB r' g' b'" if "(r, g, b) \<noteq> (r', g', b')"
  proof
    assume eq: "RGB r g b = RGB r' g' b'"
    from eq RGB_red [of r g b] RGB_red [of r' g' b'] have "r = r'" by simp
    moreover from eq RGB_green [of r g b] RGB_green [of r' g' b'] have "g = g'" by simp
    moreover from eq RGB_blue [of r g b] RGB_blue [of r' g' b'] have "b = b'" by simp
    ultimately show False using that by simp
  qed
  have lower: "0 \<le> sint (RGB r g b)"
    by (simp add: RGB_sint)
  have upper: "sint (RGB r g b) \<le> 0x00FFFFFF"
    using RGB_uint [of r g b] by (simp add: RGB_sint)
  from red green blue inj lower upper show ?thesis
    by (simp add: narrow)
qed

theorem RGB_channels_recoverable_witness:
  "(255 :: uint8, 0 :: uint8, 0 :: uint8) \<noteq> (0, 255, 0)
   \<and> RGB 255 0 0 \<noteq> RGB 0 255 0
   \<and> RGB 255 0 0 AND 0xFF = 255
   \<and> sint (RGB 255 0 0) \<le> 0x00FFFFFF"
  using RGB_channels_recoverable [of 255 0 0 0 255 0] by simp

section \<open>The enumerations\<close>

text \<open>
  C4. The theme block has exactly three constants, \<open>SystemDefault = 0\<close>, \<open>Dark = 1\<close> and
  \<open>Light = 2\<close>, pairwise different; the backdrop block has exactly five, \<open>Auto = 0\<close>,
  \<open>None = 1\<close>, \<open>Mica = 2\<close>, \<open>Acrylic = 3\<close> and \<open>Tabbed = 4\<close>, pairwise different.
\<close>

theorem enumerations_distinct:
  "length Theme_constants = 3
   \<and> Theme_constants = [0, 1, 2]
   \<and> distinct Theme_constants
   \<and> SystemDefault = 0 \<and> Dark = 1 \<and> Light = 2
   \<and> length BackdropType_constants = 5
   \<and> BackdropType_constants = [0, 1, 2, 3, 4]
   \<and> distinct BackdropType_constants
   \<and> map sint BackdropType_constants = [0, 1, 2, 3, 4]
   \<and> Auto = 0 \<and> None_backdrop = 1 \<and> Mica = 2 \<and> Acrylic = 3 \<and> Tabbed = 4"
  by (simp add: Theme_constants_def SystemDefault_def Dark_def Light_def
      BackdropType_constants_def Auto_def None_backdrop_def Mica_def Acrylic_def Tabbed_def)

section \<open>The DLL search flags\<close>

lemmas DLLSearch_defs =
  DLLSearchDefault_def DLLSearchDontResolveDllReferences_def DLLSearchAsDataFile_def
  DLLSearchWithAlteredPath_def DLLSearchIgnoreCodeAuthzLevel_def
  DLLSearchAsImageResource_def DLLSearchAsDataFileExclusive_def
  DLLSearchRequireSignedTarget_def DLLSearchDllLoadDir_def DLLSearchApplicationDir_def
  DLLSearchUserDirs_def DLLSearchSystem32_def DLLSearchDefaultDirs_def
  DLLSearchSafeCurrentDirs_def DLLSearchSystem32NoForwarder_def
  DLLSearchOsIntegrityContinuity_def

lemma DLLSearch_flags_single_bit: "DLLSearch_flags = map (\<lambda>k. 2 ^ k) DLLSearch_bits"
  by (simp add: DLLSearch_flags_def DLLSearch_bits_def DLLSearch_defs)

lemma DLLSearch_bits_lt_32: "k \<in> set DLLSearch_bits \<Longrightarrow> k < 32"
  by (auto simp add: DLLSearch_bits_def)

lemma DLLSearch_constants_distinct: "distinct DLLSearch_constants"
  by (simp add: DLLSearch_constants_def DLLSearch_flags_def DLLSearch_defs)

lemma combine_bit: "bit (combine xs) n \<longleftrightarrow> (\<exists>x \<in> set xs. bit x n)"
  by (induction xs) (auto simp add: bit_or_iff)

lemma flag_bit:
  assumes "f \<in> set DLLSearch_flags"
  obtains k where "k \<in> set DLLSearch_bits" "f = 2 ^ k" "k < 32"
proof -
  from assms have "f \<in> (\<lambda>k. 2 ^ k) ` set DLLSearch_bits"
    by (simp only: DLLSearch_flags_single_bit set_map)
  then obtain k where k: "k \<in> set DLLSearch_bits" "f = 2 ^ k"
    by (rule imageE)
  from k(1) have "k < 32" by (rule DLLSearch_bits_lt_32)
  with k that show ?thesis by blast
qed

lemma bit_exp_uint32: "j < 32 \<Longrightarrow> bit (2 ^ j :: uint32) k \<longleftrightarrow> k = j"
  by (auto simp add: bit_exp_iff)

lemma flag_member_iff_bit:
  assumes sub: "set xs \<subseteq> set DLLSearch_flags" and k: "k < 32"
  shows "2 ^ k \<in> set xs \<longleftrightarrow> bit (combine xs) k"
proof
  assume "2 ^ k \<in> set xs"
  with k show "bit (combine xs) k"
    unfolding combine_bit by (intro bexI [of _ "2 ^ k"]) (simp_all add: bit_exp_uint32)
next
  assume "bit (combine xs) k"
  then obtain x where x: "x \<in> set xs" "bit x k"
    by (auto simp add: combine_bit)
  from x(1) sub have "x \<in> set DLLSearch_flags" by blast
  then obtain j where "x = 2 ^ j" "j < 32" by (rule flag_bit)
  with x(2) have "x = 2 ^ k" by (simp add: bit_exp_uint32)
  with x(1) show "2 ^ k \<in> set xs" by simp
qed

lemma and_exp_neq_0_iff_bit: "k < 32 \<Longrightarrow> (w :: uint32) AND 2 ^ k \<noteq> 0 \<longleftrightarrow> bit w k"
  by (simp add: and_exp_eq_0_iff_not_bit)

lemma combine_decode:
  assumes sub: "set xs \<subseteq> set DLLSearch_flags"
  shows "set xs = {f \<in> set DLLSearch_flags. combine xs AND f \<noteq> 0}"
proof (rule set_eqI)
  fix f
  show "f \<in> set xs \<longleftrightarrow> f \<in> {f \<in> set DLLSearch_flags. combine xs AND f \<noteq> 0}"
  proof (cases "f \<in> set DLLSearch_flags")
    case True
    then obtain k where "f = 2 ^ k" "k < 32" by (rule flag_bit)
    with True show ?thesis
      by (simp add: and_exp_neq_0_iff_bit flag_member_iff_bit [OF sub])
  next
    case False
    with sub show ?thesis by auto
  qed
qed

lemma combine_unique:
  assumes "set xs \<subseteq> set DLLSearch_flags" "set ys \<subseteq> set DLLSearch_flags" "combine xs = combine ys"
  shows "set xs = set ys"
  using combine_decode [OF assms(1)] combine_decode [OF assms(2)] assms(3) by simp

text \<open>
  C2. The sixteen constants of the DLL search block have pairwise different values. Each
  of the fifteen flags after \<open>DLLSearchDefault\<close> is a single bit \<open>2 ^ k\<close>, with a bit
  position \<open>k < 32\<close> of its own. So the flags of a combination are read back from it: a
  flag is among those combined exactly when its bit is set in the OR, and two
  combinations of flags with the same OR combine the same set of flags.
\<close>

theorem DLLSearch_flags_combine:
  "distinct DLLSearch_constants
   \<and> length DLLSearch_constants = 16
   \<and> length DLLSearch_flags = 15
   \<and> DLLSearch_flags = map (\<lambda>k. 2 ^ k) DLLSearch_bits
   \<and> distinct DLLSearch_bits
   \<and> (\<forall>k \<in> set DLLSearch_bits. k < 32)
   \<and> (\<forall>xs. set xs \<subseteq> set DLLSearch_flags \<longrightarrow>
         set xs = {f \<in> set DLLSearch_flags. combine xs AND f \<noteq> 0})
   \<and> (\<forall>xs ys. set xs \<subseteq> set DLLSearch_flags \<and> set ys \<subseteq> set DLLSearch_flags
         \<and> combine xs = combine ys \<longrightarrow> set xs = set ys)"
proof -
  have len: "length DLLSearch_constants = 16" "length DLLSearch_flags = 15"
    by (simp_all add: DLLSearch_constants_def DLLSearch_flags_def)
  have bits: "distinct DLLSearch_bits"
    by (simp add: DLLSearch_bits_def)
  from DLLSearch_constants_distinct len DLLSearch_flags_single_bit bits DLLSearch_bits_lt_32 combine_decode combine_unique
  show ?thesis by blast
qed

theorem DLLSearch_flags_combine_witness:
  "set [DLLSearchApplicationDir, DLLSearchSystem32] \<subseteq> set DLLSearch_flags
   \<and> set [DLLSearchSystem32, DLLSearchApplicationDir, DLLSearchSystem32] \<subseteq> set DLLSearch_flags
   \<and> combine [DLLSearchApplicationDir, DLLSearchSystem32] =
       combine [DLLSearchSystem32, DLLSearchApplicationDir, DLLSearchSystem32]
   \<and> combine [DLLSearchApplicationDir, DLLSearchSystem32] = 0xA00
   \<and> set [DLLSearchApplicationDir, DLLSearchSystem32] =
       set [DLLSearchSystem32, DLLSearchApplicationDir, DLLSearchSystem32]
   \<and> set [DLLSearchApplicationDir, DLLSearchSystem32] =
       {f \<in> set DLLSearch_flags. combine [DLLSearchApplicationDir, DLLSearchSystem32] AND f \<noteq> 0}
   \<and> 9 \<in> set DLLSearch_bits \<and> (9 :: nat) < 32"
proof -
  have sub1: "set [DLLSearchApplicationDir, DLLSearchSystem32] \<subseteq> set DLLSearch_flags"
    by (simp add: DLLSearch_flags_def)
  have sub2: "set [DLLSearchSystem32, DLLSearchApplicationDir, DLLSearchSystem32]
      \<subseteq> set DLLSearch_flags"
    by (simp add: DLLSearch_flags_def)
  have eq: "combine [DLLSearchApplicationDir, DLLSearchSystem32] =
      combine [DLLSearchSystem32, DLLSearchApplicationDir, DLLSearchSystem32]"
    by (simp add: DLLSearchApplicationDir_def DLLSearchSystem32_def)
  have val: "combine [DLLSearchApplicationDir, DLLSearchSystem32] = 0xA00"
    by (simp add: DLLSearchApplicationDir_def DLLSearchSystem32_def)
  have nine: "9 \<in> set DLLSearch_bits"
    by (simp add: DLLSearch_bits_def)
  from DLLSearch_flags_combine sub1 sub2 eq val nine show ?thesis
    by blast
qed

section \<open>The default message catalog\<close>

subsection \<open>What a call of \<open>DefaultMessages\<close> changes in the store\<close>

lemma DefaultMessages_pointer: "fst (DefaultMessages s) = Some (length (Messages_cells s))"
  by (simp add: DefaultMessages_def)

lemma DefaultMessages_Options_cells: "Options_cells (snd (DefaultMessages s)) = Options_cells s"
  by (simp add: DefaultMessages_def)

lemma DefaultMessages_ThemeSettings_cells:
  "ThemeSettings_cells (snd (DefaultMessages s)) = ThemeSettings_cells s"
  by (simp add: DefaultMessages_def)

lemma DefaultMessages_take:
  "take (length (Messages_cells s)) (Messages_cells (snd (DefaultMessages s))) = Messages_cells s"
  by (simp add: DefaultMessages_def)

lemma DefaultMessages_length:
  "length (Messages_cells (snd (DefaultMessages s))) = Suc (length (Messages_cells s))"
  by (simp add: DefaultMessages_def)

lemma DefaultMessages_old_cell:
  "a < length (Messages_cells s) \<Longrightarrow>
     Messages_cells (snd (DefaultMessages s)) ! a = Messages_cells s ! a"
  by (simp add: DefaultMessages_def nth_append)

lemma DefaultMessages_load_old:
  "load_Messages s p = Some m \<Longrightarrow> load_Messages (snd (DefaultMessages s)) p = Some m"
  by (auto simp add: load_Messages_def DefaultMessages_length DefaultMessages_old_cell
      split: option.splits if_splits)

lemma DefaultMessages_fresh: "load_Messages s (fst (DefaultMessages s)) = None"
  by (simp add: load_Messages_def DefaultMessages_pointer)

lemma DefaultMessages_load_new:
  "load_Messages (snd (DefaultMessages s)) (fst (DefaultMessages s)) =
     Some (last (Messages_cells (snd (DefaultMessages s))))"
  by (simp add: load_Messages_def DefaultMessages_def)

lemma DefaultMessages_last:
  "last (Messages_cells (snd (DefaultMessages s))) = last (Messages_cells (snd (DefaultMessages t)))"
  by (simp add: DefaultMessages_def)

lemma run_Options_cells: "Options_cells (snd (run c s)) = Options_cells s"
  by (cases c) (simp_all add: DefaultMessages_def)

lemma run_ThemeSettings_cells: "ThemeSettings_cells (snd (run c s)) = ThemeSettings_cells s"
  by (cases c) (simp_all add: DefaultMessages_def)

lemma run_take:
  "take (length (Messages_cells s)) (Messages_cells (snd (run c s))) = Messages_cells s"
  by (cases c) (simp_all add: DefaultMessages_def)

lemma run_load_Messages:
  "load_Messages s p = Some m \<Longrightarrow> load_Messages (snd (run c s)) p = Some m"
  by (cases c) (simp_all add: split_beta DefaultMessages_load_old)

text \<open>
  C3. A \<open>Messages\<close> value is its eleven string fields (\<open>InstallationRequired\<close>,
  \<open>UpdateRequired\<close>, \<open>MissingRequirements\<close>, \<open>Webview2NotInstalled\<close>, \<open>Error\<close>,
  \<open>FailedToInstall\<close>, \<open>DownloadPage\<close>, \<open>PressOKToInstall\<close>, \<open>ContactAdmin\<close>,
  \<open>InvalidFixedWebview2\<close>, \<open>WebView2ProcessCrash\<close>) and nothing more. From any store,
  \<open>DefaultMessages\<close> returns a pointer to a catalog in which each of the eleven fields is
  its fixed English text, and no field is the empty string.
\<close>

theorem DefaultMessages_catalog:
  "(\<exists>m. load_Messages (snd (DefaultMessages s)) (fst (DefaultMessages s)) = Some m
      \<and> InstallationRequired m = ''The WebView2 runtime is required. Press Ok to download and install. Note: The installer will download silently so please wait.''
      \<and> UpdateRequired m = ''The WebView2 runtime needs updating. Press Ok to download and install. Note: The installer will download silently so please wait.''
      \<and> MissingRequirements m = ''Missing Requirements''
      \<and> Webview2NotInstalled m = ''WebView2 runtime not installed''
      \<and> Error m = ''Error''
      \<and> FailedToInstall m = ''The runtime failed to install correctly. Please try again.''
      \<and> DownloadPage m = ''This application requires the WebView2 runtime. Press OK to open the download page. Minimum version required: ''
      \<and> PressOKToInstall m = ''Press Ok to install.''
      \<and> ContactAdmin m = ''The WebView2 runtime is required to run this application. Please contact your system administrator.''
      \<and> InvalidFixedWebview2 m = ''The WebView2 runtime is manually specified, but It is not valid. Check minimum required version and webview2 path.''
      \<and> WebView2ProcessCrash m = ''The WebView2 process crashed and the application needs to be restarted.''
      \<and> InstallationRequired m \<noteq> [] \<and> UpdateRequired m \<noteq> [] \<and> MissingRequirements m \<noteq> []
      \<and> Webview2NotInstalled m \<noteq> [] \<and> Error m \<noteq> [] \<and> FailedToInstall m \<noteq> []
      \<and> DownloadPage m \<noteq> [] \<and> PressOKToInstall m \<noteq> [] \<and> ContactAdmin m \<noteq> []
      \<and> InvalidFixedWebview2 m \<noteq> [] \<and> WebView2ProcessCrash m \<noteq> [])
   \<and> (c :: Messages) =
       \<lparr>InstallationRequired = InstallationRequired c, UpdateRequired = UpdateRequired c,
        MissingRequirements = MissingRequirements c, Webview2NotInstalled = Webview2NotInstalled c,
        Error = Error c, FailedToInstall = FailedToInstall c, DownloadPage = DownloadPage c,
        PressOKToInstall = PressOKToInstall c, ContactAdmin = ContactAdmin c,
        InvalidFixedWebview2 = InvalidFixedWebview2 c,
        WebView2ProcessCrash = WebView2ProcessCrash c\<rparr>"
proof
  show "\<exists>m. load_Messages (snd (DefaultMessages s)) (fst (DefaultMessages s)) = Some m
      \<and> InstallationRequired m = ''The WebView2 runtime is required. Press Ok to download and install. Note: The installer will download silently so please wait.''
      \<and> UpdateRequired m = ''The WebView2 runtime needs updating. Press Ok to download and install. Note: The installer will download silently so please wait.''
      \<and> MissingRequirements m = ''Missing Requirements''
      \<and> Webview2NotInstalled m = ''WebView2 runtime not installed''
      \<and> Error m = ''Error''
      \<and> FailedToInstall m = ''The runtime failed to install correctly. Please try again.''
      \<and> DownloadPage m = ''This application requires the WebView2 runtime. Press OK to open the download page. Minimum version required: ''
      \<and> PressOKToInstall m = ''Press Ok to install.''
      \<and> ContactAdmin m = ''The WebView2 runtime is required to run this application. Please contact your system administrator.''
      \<and> InvalidFixedWebview2 m = ''The WebView2 runtime is manually specified, but It is not valid. Check minimum required version and webview2 path.''
      \<and> WebView2ProcessCrash m = ''The WebView2 process crashed and the application needs to be restarted.''
      \<and> InstallationRequired m \<noteq> [] \<and> UpdateRequired m \<noteq> [] \<and> MissingRequirements m \<noteq> []
      \<and> Webview2NotInstalled m \<noteq> [] \<and> Error m \<noteq> [] \<and> FailedToInstall m \<noteq> []
      \<and> DownloadPage m \<noteq> [] \<and> PressOKToInstall m \<noteq> [] \<and> ContactAdmin m \<noteq> []
      \<and> InvalidFixedWebview2 m \<noteq> [] \<and> WebView2ProcessCrash m \<noteq> []"
    by (simp add: load_Messages_def DefaultMessages_def)
  show "c = \<lparr>InstallationRequired = InstallationRequired c, UpdateRequired = UpdateRequired c,
        MissingRequirements = MissingRequirements c, Webview2NotInstalled = Webview2NotInstalled c,
        Error = Error c, FailedToInstall = FailedToInstall c, DownloadPage = DownloadPage c,
        PressOKToInstall = PressOKToInstall c, ContactAdmin = ContactAdmin c,
        InvalidFixedWebview2 = InvalidFixedWebview2 c,
        WebView2ProcessCrash = WebView2ProcessCrash c\<rparr>"
    by simp
qed

text \<open>
  C8. \<open>DefaultMessages\<close> is deterministic: called on any two stores it returns catalogs
  that are equal, field for field; and two calls in a row return two different pointers
  to equal catalogs.
\<close>

theorem DefaultMessages_deterministic:
  "load_Messages (snd (DefaultMessages s)) (fst (DefaultMessages s)) =
     load_Messages (snd (DefaultMessages t)) (fst (DefaultMessages t))
   \<and> load_Messages (snd (DefaultMessages s)) (fst (DefaultMessages s)) \<noteq> None
   \<and> (case DefaultMessages s of (p1, s1) \<Rightarrow>
        case DefaultMessages s1 of (p2, s2) \<Rightarrow>
          p1 \<noteq> p2 \<and> load_Messages s2 p1 = load_Messages s2 p2 \<and> load_Messages s2 p1 \<noteq> None)"
proof -
  have a: "load_Messages (snd (DefaultMessages s)) (fst (DefaultMessages s)) =
     load_Messages (snd (DefaultMessages t)) (fst (DefaultMessages t))"
    by (simp only: DefaultMessages_load_new DefaultMessages_last [of s t])
  have b: "load_Messages (snd (DefaultMessages s)) (fst (DefaultMessages s)) \<noteq> None"
    by (simp only: DefaultMessages_load_new) simp
  have c: "case DefaultMessages s of (p1, s1) \<Rightarrow>
        case DefaultMessages s1 of (p2, s2) \<Rightarrow>
          p1 \<noteq> p2 \<and> load_Messages s2 p1 = load_Messages s2 p2 \<and> load_Messages s2 p1 \<noteq> None"
    by (simp add: DefaultMessages_def load_Messages_def nth_append)
  from a b c show ?thesis by blast
qed

section \<open>The operations of the package and the store\<close>

text \<open>
  C6. No operation of the package changes a value that exists: after any call the
  \<open>Options\<close> cells and the \<open>ThemeSettings\<close> cells are the same, and every \<open>Messages\<close> cell
  that could be read before reads the same afterwards. \<open>DefaultMessages\<close> returns an
  address that was not in use before the call and holds a catalog after it. \<open>RGB\<close> leaves
  the whole store as it is, and its result does not depend on the store. The constants
  of the package are constants of the theory; no operation has them as state.
\<close>

theorem operations_mutate_nothing:
  "Options_cells (snd (run c s)) = Options_cells s
   \<and> ThemeSettings_cells (snd (run c s)) = ThemeSettings_cells s
   \<and> take (length (Messages_cells s)) (Messages_cells (snd (run c s))) = Messages_cells s
   \<and> load_Options (snd (run c s)) = load_Options s
   \<and> load_ThemeSettings (snd (run c s)) = load_ThemeSettings s
   \<and> (\<forall>p m. load_Messages s p = Some m \<longrightarrow> load_Messages (snd (run c s)) p = Some m)
   \<and> load_Messages s (fst (DefaultMessages s)) = None
   \<and> load_Messages (snd (DefaultMessages s)) (fst (DefaultMessages s)) \<noteq> None
   \<and> snd (run (Call_RGB r g b) s) = s
   \<and> fst (run (Call_RGB r g b) s) = fst (run (Call_RGB r g b) t)"
proof -
  have opts: "load_Options (snd (run c s)) = load_Options s"
    by (rule ext) (simp add: load_Options_def run_Options_cells split: option.split)
  have themes: "load_ThemeSettings (snd (run c s)) = load_ThemeSettings s"
    by (rule ext) (simp add: load_ThemeSettings_def run_ThemeSettings_cells split: option.split)
  have new: "load_Messages (snd (DefaultMessages s)) (fst (DefaultMessages s)) \<noteq> None"
    by (simp only: DefaultMessages_load_new) simp
  have rgb: "snd (run (Call_RGB r g b) s) = s"
    "fst (run (Call_RGB r g b) s) = fst (run (Call_RGB r g b) t)"
    by simp_all
  from run_Options_cells [of c s] run_ThemeSettings_cells [of c s] run_take [of s c]
    opts themes run_load_Messages [of s _ _ c] DefaultMessages_fresh [of s] new rgb
  show ?thesis by blast
qed

theorem operations_mutate_nothing_witness:
  "load_Messages
     \<lparr>Options_cells = ([] :: (unit, unit) Options list), ThemeSettings_cells = [],
      Messages_cells =
        [\<lparr>InstallationRequired = ''a'', UpdateRequired = ''b'', MissingRequirements = ''c'',
          Webview2NotInstalled = ''d'', Error = ''e'', FailedToInstall = ''f'',
          DownloadPage = ''g'', PressOKToInstall = ''h'', ContactAdmin = ''i'',
          InvalidFixedWebview2 = ''j'', WebView2ProcessCrash = ''k''\<rparr>]\<rparr>
     (Some 0) =
     Some \<lparr>InstallationRequired = ''a'', UpdateRequired = ''b'', MissingRequirements = ''c'',
          Webview2NotInstalled = ''d'', Error = ''e'', FailedToInstall = ''f'',
          DownloadPage = ''g'', PressOKToInstall = ''h'', ContactAdmin = ''i'',
          InvalidFixedWebview2 = ''j'', WebView2ProcessCrash = ''k''\<rparr>
   \<and> load_Messages
     (snd (run Call_DefaultMessages
       \<lparr>Options_cells = ([] :: (unit, unit) Options list), ThemeSettings_cells = [],
        Messages_cells =
          [\<lparr>InstallationRequired = ''a'', UpdateRequired = ''b'', MissingRequirements = ''c'',
            Webview2NotInstalled = ''d'', Error = ''e'', FailedToInstall = ''f'',
            DownloadPage = ''g'', PressOKToInstall = ''h'', ContactAdmin = ''i'',
            InvalidFixedWebview2 = ''j'', WebView2ProcessCrash = ''k''\<rparr>]\<rparr>))
     (Some 0) =
     Some \<lparr>InstallationRequired = ''a'', UpdateRequired = ''b'', MissingRequirements = ''c'',
          Webview2NotInstalled = ''d'', Error = ''e'', FailedToInstall = ''f'',
          DownloadPage = ''g'', PressOKToInstall = ''h'', ContactAdmin = ''i'',
          InvalidFixedWebview2 = ''j'', WebView2ProcessCrash = ''k''\<rparr>"
proof -
  let ?m = "\<lparr>InstallationRequired = ''a'', UpdateRequired = ''b'', MissingRequirements = ''c'',
          Webview2NotInstalled = ''d'', Error = ''e'', FailedToInstall = ''f'',
          DownloadPage = ''g'', PressOKToInstall = ''h'', ContactAdmin = ''i'',
          InvalidFixedWebview2 = ''j'', WebView2ProcessCrash = ''k''\<rparr>"
  let ?s = "\<lparr>Options_cells = ([] :: (unit, unit) Options list), ThemeSettings_cells = [],
      Messages_cells = [?m]\<rparr>"
  have old: "load_Messages ?s (Some 0) = Some ?m"
    by (simp add: load_Messages_def)
  from operations_mutate_nothing [of Call_DefaultMessages ?s]
  have "\<forall>p m. load_Messages ?s p = Some m \<longrightarrow>
      load_Messages (snd (run Call_DefaultMessages ?s)) p = Some m"
    by blast
  with old have "load_Messages (snd (run Call_DefaultMessages ?s)) (Some 0) = Some ?m"
    by blast
  with old show ?thesis by (rule conjI)
qed

text \<open>
  C5. No operation of the package checks its input or signals an error. For every call
  and every store, the outcome is a returned value, never a failure: \<open>RGB\<close> returns the
  packed colour for every \<open>r\<close>, \<open>g\<close>, \<open>b\<close>, and \<open>DefaultMessages\<close> returns a pointer that is
  not \<^verbatim>\<open>nil\<close> and holds a catalog. The store ranges over all stores, so also over those
  whose \<open>Options\<close> hold a theme other than 0, 1, 2, a backdrop other than 0 to 4 or search
  path bits that no flag names: such values are left as they are.
\<close>

theorem operations_signal_no_error:
  "(\<exists>v. fst (run c s) = Inr v)
   \<and> fst (run (Call_RGB r g b) s) = Inr (Result_int32 (RGB r g b))
   \<and> (\<exists>a. fst (run Call_DefaultMessages s) = Inr (Result_Messages_pointer (Some a))
         \<and> load_Messages (snd (run Call_DefaultMessages s)) (Some a) \<noteq> None)
   \<and> Options_cells (snd (run c s)) = Options_cells s
   \<and> ThemeSettings_cells (snd (run c s)) = ThemeSettings_cells s"
proof -
  have ret: "\<exists>v. fst (run c s) = Inr v"
    by (cases c) (simp_all add: split_beta)
  have rgb: "fst (run (Call_RGB r g b) s) = Inr (Result_int32 (RGB r g b))"
    by simp
  have cat: "\<exists>a. fst (run Call_DefaultMessages s) = Inr (Result_Messages_pointer (Some a))
         \<and> load_Messages (snd (run Call_DefaultMessages s)) (Some a) \<noteq> None"
    by (simp add: DefaultMessages_def load_Messages_def)
  from ret rgb cat run_Options_cells [of c s] run_ThemeSettings_cells [of c s]
  show ?thesis by blast
qed

end
